theory Spec2Isabelle
  imports
    Complex_Main
    "HOL-Library.Char_ord"
    "HOL-Library.List_Lexorder"
    "HOL-Library.Multiset"
begin

section \<open>Data model\<close>

text \<open>
  The analytics code of the repository (\<^verbatim>\<open>data_processor.py\<close>, \<^verbatim>\<open>analytics.py\<close>) works on a
  list of order dictionaries. A dictionary key that may be missing is an \<open>option\<close> field:
  \<open>None\<close> is "key absent", so that \<^verbatim>\<open>d.get(k, default)\<close> is \<open>obter (k d) default\<close>.
  Python numbers (JSON integers and floats) are modelled as exact reals: rounding error of
  binary floating point is not part of the model.
\<close>

record datetime =
  year :: nat
  month :: nat
  day :: nat
  hour :: nat
  minute :: nat
  second :: nat
  microsecond :: nat
  tzinfo :: "int option"  \<comment> \<open>UTC offset in minutes; \<open>None\<close> for a naive datetime\<close>

text \<open>
  The value stored under \<^verbatim>\<open>'data_pedido'\<close>: the key is absent, or it holds a string, a native
  \<^verbatim>\<open>datetime\<close>, or a value of some other JSON type (null, number, list, object).
\<close>

datatype data_valor = Ausente | Texto string | Instante datetime | Outro

record item =
  nome :: "string option"
  quantidade :: "real option"
  valor :: "real option"
  preco_unitario :: "real option"

record pedido =
  id_pedido :: "nat option"
  data_pedido :: data_valor
  valor_total :: "real option"
  itens :: "item list option"

definition obter :: "'a option \<Rightarrow> 'a \<Rightarrow> 'a" where
  "obter campo padrao = (case campo of None \<Rightarrow> padrao | Some v \<Rightarrow> v)"

section \<open>DataProcessor.calcular_vendas_totais\<close>

text \<open>
  \<^verbatim>\<open>
  total = 0.0
  for pedido in pedidos:
      if 'itens' in pedido:
          for item in pedido['itens']:
              total += item.get('valor', 0) * item.get('quantidade', 1)
      else:
          total += pedido.get('valor_total', 0)
  return total
  \<close>
  Both loops are written with the running total as an accumulator, as the source has them.
\<close>

fun soma_itens :: "real \<Rightarrow> item list \<Rightarrow> real" where
  "soma_itens tot [] = tot"
| "soma_itens tot (i # resto) =
     soma_itens (tot + obter (valor i) 0 * obter (quantidade i) 1) resto"

fun soma_pedidos :: "real \<Rightarrow> pedido list \<Rightarrow> real" where
  "soma_pedidos tot [] = tot"
| "soma_pedidos tot (p # resto) =
     soma_pedidos
       (case itens p of
          Some linhas \<Rightarrow> soma_itens tot linhas
        | None \<Rightarrow> tot + obter (valor_total p) 0)
       resto"

definition calcular_vendas_totais :: "pedido list \<Rightarrow> real" where
  "calcular_vendas_totais pedidos = soma_pedidos 0 pedidos"

text \<open>
  What one order contributes according to the specification: the sum of price times
  quantity over its line items when the order has line items, its total value otherwise.
  The price of a line item is the number under \<^verbatim>\<open>'valor'\<close> (default 0), the quantity the
  number under \<^verbatim>\<open>'quantidade'\<close> (default 1).
\<close>

definition valor_linha :: "item \<Rightarrow> real" where
  "valor_linha i = obter (valor i) 0 * obter (quantidade i) 1"

definition contribuicao :: "pedido \<Rightarrow> real" where
  "contribuicao p =
     (case itens p of
        Some linhas \<Rightarrow> sum_list (map valor_linha linhas)
      | None \<Rightarrow> obter (valor_total p) 0)"

definition pedido_simples :: "real \<Rightarrow> data_valor \<Rightarrow> pedido" where
  "pedido_simples v d =
     \<lparr>id_pedido = None, data_pedido = d, valor_total = Some v, itens = None\<rparr>"

section \<open>The Python standard library, as far as the code uses it\<close>

text \<open>
  \<^verbatim>\<open>datetime\<close> of the standard library, after its documentation: the proleptic Gregorian
  ordinal of a date (1 is 0001-01-01), \<^verbatim>\<open>weekday()\<close> (Monday is 0) and the week number of
  \<^verbatim>\<open>isocalendar()\<close>. The names are those of the pure-Python implementation.
\<close>

definition is_leap :: "nat \<Rightarrow> bool" where
  "is_leap y = (if y mod 400 = 0 then True else if y mod 100 = 0 then False else y mod 4 = 0)"

definition days_in_month :: "nat \<Rightarrow> nat \<Rightarrow> nat" where
  "days_in_month y m =
     (if m = 2 then (if is_leap y then 29 else 28)
      else if m = 4 then 30 else if m = 6 then 30 else if m = 9 then 30
      else if m = 11 then 30 else 31)"

definition days_before_year :: "nat \<Rightarrow> int" where
  "days_before_year y =
     (let y1 = int y - 1 in y1 * 365 + y1 div 4 - y1 div 100 + y1 div 400)"

definition days_before_month :: "nat \<Rightarrow> nat \<Rightarrow> int" where
  "days_before_month y m = int (sum_list (map (days_in_month y) [1..<m]))"

definition ymd2ord :: "nat \<Rightarrow> nat \<Rightarrow> nat \<Rightarrow> int" where
  "ymd2ord y m d = days_before_year y + days_before_month y m + int d"

definition toordinal :: "datetime \<Rightarrow> int" where
  "toordinal d = ymd2ord (year d) (month d) (day d)"

definition weekday :: "datetime \<Rightarrow> nat" where
  "weekday d = nat ((toordinal d + 6) mod 7)"

definition isoweek1monday :: "nat \<Rightarrow> int" where
  "isoweek1monday y =
     (let firstday = ymd2ord y 1 1;
          firstweekday = (firstday + 6) mod 7;
          week1monday = firstday - firstweekday
      in if firstweekday > 3 then week1monday + 7 else week1monday)"

text \<open>\<^verbatim>\<open>isocalendar()\<close> returns (ISO year, ISO week, ISO weekday); the first two are modelled.\<close>

definition isocalendar :: "datetime \<Rightarrow> nat \<times> nat" where
  "isocalendar d =
     (let y = year d;
          today = toordinal d;
          week = (today - isoweek1monday y) div 7
      in if week < 0 then (y - 1, nat ((today - isoweek1monday (y - 1)) div 7 + 1))
         else if week \<ge> 52 \<and> today \<ge> isoweek1monday (y + 1) then (y + 1, 1)
         else (y, nat (week + 1)))"

text \<open>Decimal output of a number, as \<^verbatim>\<open>str(n)\<close> and the f-string conversion give it.\<close>

definition digit_char :: "nat \<Rightarrow> char" where
  "digit_char n = ''0123456789'' ! n"

fun str_nat :: "nat \<Rightarrow> string" where
  "str_nat n = (if n < 10 then [digit_char n] else str_nat (n div 10) @ [digit_char (n mod 10)])"

declare str_nat.simps [simp del]

definition zfill :: "nat \<Rightarrow> string \<Rightarrow> string" where
  "zfill w s = replicate (w - length s) (CHR ''0'') @ s"

text \<open>\<^verbatim>\<open>strftime('%Y-%m-%d')\<close> and \<^verbatim>\<open>strftime('%Y-%m')\<close>, with the year padded to four digits.\<close>

definition strftime_Ymd :: "datetime \<Rightarrow> string" where
  "strftime_Ymd d =
     zfill 4 (str_nat (year d)) @ ''-'' @ zfill 2 (str_nat (month d)) @ ''-''
       @ zfill 2 (str_nat (day d))"

definition strftime_Ym :: "datetime \<Rightarrow> string" where
  "strftime_Ym d = zfill 4 (str_nat (year d)) @ ''-'' @ zfill 2 (str_nat (month d))"

text \<open>\<^verbatim>\<open>calendar.day_name\<close> in the C locale.\<close>

definition day_name :: "string list" where
  "day_name =
     [''Monday'', ''Tuesday'', ''Wednesday'', ''Thursday'', ''Friday'', ''Saturday'',
      ''Sunday'']"

text \<open>\<^verbatim>\<open>s.replace('Z', '+00:00')\<close>: every occurrence of the letter is replaced.\<close>

definition replace_Z :: "string \<Rightarrow> string" where
  "replace_Z s = concat (map (\<lambda>c. if c = CHR ''Z'' then ''+00:00'' else [c]) s)"

text \<open>
  \<^verbatim>\<open>sorted(d.items())\<close> on a dictionary: the keys are distinct, so the pairs are ordered by
  key. \<^verbatim>\<open>sorted\<close> is stable; so is \<open>sort_key\<close>.
\<close>

definition sorted_items :: "('k::linorder \<times> 'v) list \<Rightarrow> ('k \<times> 'v) list" where
  "sorted_items d = sort_key fst d"

text \<open>
  A slice \<^verbatim>\<open>xs[:n]\<close>: a negative bound counts from the end of the list.
\<close>

definition slice_ate :: "'a list \<Rightarrow> int \<Rightarrow> 'a list" where
  "slice_ate xs n = (if 0 \<le> n then take (nat n) xs else take (nat (int (length xs) + n)) xs)"

section \<open>Reading the date of an order\<close>

text \<open>
  \<^verbatim>\<open>datetime.fromisoformat\<close> is a function of the standard library whose accepted language
  depends on the Python version. Every function below takes it as the parameter \<open>ler\<close>:
  \<open>ler s = None\<close> stands for the \<^verbatim>\<open>ValueError\<close> it raises on \<open>s\<close>.

  Each aggregation starts with the same lines:
  \<^verbatim>\<open>
  data_pedido = pedido.get('data_pedido')
  if not data_pedido:
      continue
  try:
      if isinstance(data_pedido, str):
          data = datetime.fromisoformat(data_pedido.replace('Z', '+00:00'))
      else:
          data = data_pedido
      ...
  except Exception as e:
      continue
  \<close>
  \<open>converter\<close> is the datetime these lines arrive at, or \<open>None\<close> when the order is skipped:
  the key is absent or holds a false value (\<^verbatim>\<open>None\<close>, the empty string), the string is
  rejected by \<^verbatim>\<open>fromisoformat\<close>, or the value is of another type, whose attribute access
  or comparison in the rest of the \<^verbatim>\<open>try\<close> block raises before anything is stored.
\<close>

type_synonym leitor_iso = "string \<Rightarrow> datetime option"

definition converter :: "leitor_iso \<Rightarrow> data_valor \<Rightarrow> datetime option" where
  "converter ler v =
     (case v of
        Ausente \<Rightarrow> None
      | Texto s \<Rightarrow> (if s = [] then None else ler (replace_Z s))
      | Instante d \<Rightarrow> Some d
      | Outro \<Rightarrow> None)"

text \<open>
  A dictionary that is filled in a loop and whose order of keys is observed is a list of
  pairs in insertion order. \<open>acumular k v d\<close> is
  \<^verbatim>\<open>
  if k not in d:
      d[k] = 0
  d[k] += v
  \<close>
\<close>

fun acumular :: "'k \<Rightarrow> 'v::monoid_add \<Rightarrow> ('k \<times> 'v) list \<Rightarrow> ('k \<times> 'v) list" where
  "acumular k v [] = [(k, 0 + v)]"
| "acumular k v ((k', w) # resto) =
     (if k = k' then (k', w + v) # resto else (k', w) # acumular k v resto)"

section \<open>DataProcessor.agrupar_por_periodo\<close>

definition chave_periodo :: "string \<Rightarrow> datetime \<Rightarrow> string" where
  "chave_periodo tipo_periodo d =
     (if tipo_periodo = ''dia'' then strftime_Ymd d
      else if tipo_periodo = ''semana''
        then str_nat (year d) @ ''-S'' @ str_nat (snd (isocalendar d))
      else if tipo_periodo = ''mes'' then strftime_Ym d
      else strftime_Ymd d)"

fun agrupar_laco ::
  "leitor_iso \<Rightarrow> string \<Rightarrow> (string \<times> real) list \<Rightarrow> pedido list \<Rightarrow> (string \<times> real) list"
where
  "agrupar_laco ler tipo vendas [] = vendas"
| "agrupar_laco ler tipo vendas (p # resto) =
     agrupar_laco ler tipo
       (case converter ler (data_pedido p) of
          None \<Rightarrow> vendas
        | Some d \<Rightarrow> acumular (chave_periodo tipo d) (obter (valor_total p) 0) vendas)
       resto"

definition agrupar_por_periodo ::
  "leitor_iso \<Rightarrow> pedido list \<Rightarrow> string \<Rightarrow> (string \<times> real) list" where
  "agrupar_por_periodo ler pedidos tipo_periodo =
     sorted_items (agrupar_laco ler tipo_periodo [] pedidos)"

section \<open>DataProcessor.itens_mais_populares\<close>

record item_popular =
  ip_nome :: string
  quantidade_total :: real
  ip_valor_total :: real

text \<open>
  \<^verbatim>\<open>
  if nome not in contador_itens:
      contador_itens[nome] = {'quantidade_total': 0, 'valor_total': 0, 'nome': nome}
  contador_itens[nome]['quantidade_total'] += quantidade
  contador_itens[nome]['valor_total'] += valor * quantidade
  \<close>
\<close>

fun contar :: "string \<Rightarrow> real \<Rightarrow> real \<Rightarrow> (string \<times> item_popular) list
    \<Rightarrow> (string \<times> item_popular) list" where
  "contar n q v [] =
     [(n, \<lparr>ip_nome = n, quantidade_total = 0 + q, ip_valor_total = 0 + v * q\<rparr>)]"
| "contar n q v ((k, e) # resto) =
     (if n = k
      then (k, e\<lparr>quantidade_total := quantidade_total e + q,
                 ip_valor_total := ip_valor_total e + v * q\<rparr>) # resto
      else (k, e) # contar n q v resto)"

definition contar_item :: "item \<Rightarrow> (string \<times> item_popular) list \<Rightarrow> (string \<times> item_popular) list"
where
  "contar_item i contador =
     contar (obter (nome i) ''Item sem nome'') (obter (quantidade i) 1)
       (obter (preco_unitario i) (obter (valor i) 0)) contador"

fun contar_itens :: "(string \<times> item_popular) list \<Rightarrow> item list \<Rightarrow> (string \<times> item_popular) list"
where
  "contar_itens contador [] = contador"
| "contar_itens contador (i # resto) = contar_itens (contar_item i contador) resto"

fun contar_pedidos ::
  "(string \<times> item_popular) list \<Rightarrow> pedido list \<Rightarrow> (string \<times> item_popular) list" where
  "contar_pedidos contador [] = contador"
| "contar_pedidos contador (p # resto) =
     contar_pedidos
       (case itens p of Some linhas \<Rightarrow> contar_itens contador linhas | None \<Rightarrow> contador)
       resto"

text \<open>
  \<^verbatim>\<open>sorted(contador_itens.values(), key=lambda x: x['quantidade_total'], reverse=True)\<close>:
  a stable sort in descending order of the key, that is, a stable ascending sort on the
  negated key.
\<close>

definition itens_ordenados :: "pedido list \<Rightarrow> item_popular list" where
  "itens_ordenados pedidos =
     sort_key (\<lambda>e. - quantidade_total e) (map snd (contar_pedidos [] pedidos))"

definition itens_mais_populares :: "pedido list \<Rightarrow> int \<Rightarrow> item_popular list" where
  "itens_mais_populares pedidos limite = slice_ate (itens_ordenados pedidos) limite"

section \<open>DataProcessor.horarios_pico and DataProcessor.dias_semana_performance\<close>

fun horarios_laco :: "leitor_iso \<Rightarrow> (nat \<times> nat) list \<Rightarrow> pedido list \<Rightarrow> (nat \<times> nat) list" where
  "horarios_laco ler contador [] = contador"
| "horarios_laco ler contador (p # resto) =
     horarios_laco ler
       (case converter ler (data_pedido p) of
          None \<Rightarrow> contador
        | Some d \<Rightarrow> acumular (hour d) 1 contador)
       resto"

definition horarios_pico :: "leitor_iso \<Rightarrow> pedido list \<Rightarrow> (nat \<times> nat) list" where
  "horarios_pico ler pedidos = sorted_items (horarios_laco ler [] pedidos)"

fun dias_semana_laco ::
  "leitor_iso \<Rightarrow> (string \<times> real) list \<Rightarrow> pedido list \<Rightarrow> (string \<times> real) list" where
  "dias_semana_laco ler vendas [] = vendas"
| "dias_semana_laco ler vendas (p # resto) =
     dias_semana_laco ler
       (case converter ler (data_pedido p) of
          None \<Rightarrow> vendas
        | Some d \<Rightarrow> acumular (day_name ! weekday d) (obter (valor_total p) 0) vendas)
       resto"

definition dias_semana_performance :: "leitor_iso \<Rightarrow> pedido list \<Rightarrow> (string \<times> real) list" where
  "dias_semana_performance ler pedidos = dias_semana_laco ler [] pedidos"

section \<open>DataProcessor.calcular_crescimento_vendas\<close>

text \<open>
  \<^verbatim>\<open>datetime.now()\<close> is a parameter, \<open>agora\<close>: a naive datetime. A naive datetime is compared
  and shifted through its position on the time line, in microseconds since the start of
  day 0 of the ordinal count; on datetimes with fields in range this is the order of the
  field tuples that Python compares. Subtracting a \<^verbatim>\<open>timedelta\<close> raises \<^verbatim>\<open>OverflowError\<close>
  when the number of days exceeds 999999999 in size or when the result leaves the years
  1 to 9999; both subtractions of the source are outside its \<^verbatim>\<open>try\<close> block.
\<close>

datatype erro = OverflowError

definition us_por_dia :: int where
  "us_por_dia = 86400000000"

definition instante_us :: "datetime \<Rightarrow> int" where
  "instante_us d =
     (((toordinal d * 24 + int (hour d)) * 60 + int (minute d)) * 60 + int (second d)) * 1000000
       + int (microsecond d)"

definition us_min :: int where
  "us_min = us_por_dia"

definition us_max :: int where
  "us_max = 3652059 * us_por_dia + (us_por_dia - 1)"

definition menos_dias :: "int \<Rightarrow> int \<Rightarrow> erro + int" where
  "menos_dias t dias =
     (if abs dias > 999999999 then Inl OverflowError
      else if t - dias * us_por_dia < us_min then Inl OverflowError
      else if t - dias * us_por_dia > us_max then Inl OverflowError
      else Inr (t - dias * us_por_dia))"

text \<open>
  The loop that fills \<^verbatim>\<open>vendas_atual\<close> and \<^verbatim>\<open>vendas_anterior\<close>. Comparing a datetime that
  carries a UTC offset with the naive bounds raises \<^verbatim>\<open>TypeError\<close>, which the \<^verbatim>\<open>except\<close>
  clause of the loop catches: the order goes to neither list.
\<close>

fun separar_laco ::
  "leitor_iso \<Rightarrow> int \<Rightarrow> int \<Rightarrow> pedido list \<times> pedido list \<Rightarrow> pedido list
     \<Rightarrow> pedido list \<times> pedido list" where
  "separar_laco ler periodo_atual periodo_anterior (vendas_atual, vendas_anterior) [] =
     (vendas_atual, vendas_anterior)"
| "separar_laco ler periodo_atual periodo_anterior (vendas_atual, vendas_anterior) (p # resto) =
     separar_laco ler periodo_atual periodo_anterior
       (case converter ler (data_pedido p) of
          None \<Rightarrow> (vendas_atual, vendas_anterior)
        | Some d \<Rightarrow>
            (case tzinfo d of
               Some fuso \<Rightarrow> (vendas_atual, vendas_anterior)
             | None \<Rightarrow>
                 if instante_us d \<ge> periodo_atual then (vendas_atual @ [p], vendas_anterior)
                 else if instante_us d \<ge> periodo_anterior \<and> instante_us d < periodo_atual
                   then (vendas_atual, vendas_anterior @ [p])
                 else (vendas_atual, vendas_anterior)))
       resto"

text \<open>\<^verbatim>\<open>round(x, 2)\<close> on an exact number: to the nearest hundredth, a tie to the even one.\<close>

definition round_half_even :: "real \<Rightarrow> int" where
  "round_half_even x =
     (let f = \<lfloor>x\<rfloor>; r = x - of_int f
      in if r < 1 / 2 then f else if r > 1 / 2 then f + 1 else if even f then f else f + 1)"

definition round2 :: "real \<Rightarrow> real" where
  "round2 x = of_int (round_half_even (x * 100)) / 100"

definition crescimento :: "real \<Rightarrow> real \<Rightarrow> real" where
  "crescimento total_atual total_anterior =
     (if total_anterior = 0 then (if total_atual > 0 then 100 else 0)
      else round2 (((total_atual - total_anterior) / total_anterior) * 100))"

definition calcular_crescimento_vendas ::
  "leitor_iso \<Rightarrow> datetime \<Rightarrow> pedido list \<Rightarrow> int \<Rightarrow> erro + real" where
  "calcular_crescimento_vendas ler agora pedidos dias =
     (case menos_dias (instante_us agora) dias of
        Inl e \<Rightarrow> Inl e
      | Inr periodo_atual \<Rightarrow>
          (case menos_dias periodo_atual dias of
             Inl e \<Rightarrow> Inl e
           | Inr periodo_anterior \<Rightarrow>
               (case separar_laco ler periodo_atual periodo_anterior ([], []) pedidos of
                  (vendas_atual, vendas_anterior) \<Rightarrow>
                    Inr (crescimento (calcular_vendas_totais vendas_atual)
                           (calcular_vendas_totais vendas_anterior)))))"

section \<open>SaboreAnalytics\<close>

record metricas =
  vendas_totais :: real
  ticket_medio :: real
  total_pedidos :: nat
  crescimento_percentual :: real

definition calcular_metricas_principais ::
  "leitor_iso \<Rightarrow> datetime \<Rightarrow> pedido list \<Rightarrow> erro + metricas" where
  "calcular_metricas_principais ler agora pedidos =
     (if pedidos = []
      then Inr \<lparr>vendas_totais = 0, ticket_medio = 0, total_pedidos = 0,
                crescimento_percentual = 0\<rparr>
      else
        (let vendas = calcular_vendas_totais pedidos;
             n = length pedidos;
             ticket = (if n > 0 then vendas / real n else 0)
         in case calcular_crescimento_vendas ler agora pedidos 30 of
              Inl e \<Rightarrow> Inl e
            | Inr c \<Rightarrow>
                Inr \<lparr>vendas_totais = vendas, ticket_medio = ticket, total_pedidos = n,
                     crescimento_percentual = c\<rparr>))"

text \<open>
  \<^verbatim>\<open>statistics.mean\<close>, \<^verbatim>\<open>median\<close> and \<^verbatim>\<open>stdev\<close>; \<^verbatim>\<open>max\<close> and \<^verbatim>\<open>min\<close> with a key return
  the first extreme element. The source calls them on a non-empty list only (\<^verbatim>\<open>stdev\<close> on
  two values at least).
\<close>

definition mean :: "real list \<Rightarrow> real" where
  "mean xs = sum_list xs / real (length xs)"

definition median :: "real list \<Rightarrow> real" where
  "median xs =
     (let ys = sort xs; n = length ys
      in if n mod 2 = 1 then ys ! (n div 2) else (ys ! (n div 2 - 1) + ys ! (n div 2)) / 2)"

definition stdev :: "real list \<Rightarrow> real" where
  "stdev xs = sqrt (sum_list (map (\<lambda>x. (x - mean xs)\<^sup>2) xs) / real (length xs - 1))"

fun max_por :: "('a \<Rightarrow> real) \<Rightarrow> 'a \<Rightarrow> 'a list \<Rightarrow> 'a" where
  "max_por f m [] = m"
| "max_por f m (x # xs) = max_por f (if f x > f m then x else m) xs"

fun min_por :: "('a \<Rightarrow> real) \<Rightarrow> 'a \<Rightarrow> 'a list \<Rightarrow> 'a" where
  "min_por f m [] = m"
| "min_por f m (x # xs) = min_por f (if f x < f m then x else m) xs"

record extremo =
  ex_id :: "nat option"
  ex_valor :: real
  ex_data :: data_valor

definition resumo :: "pedido \<Rightarrow> extremo" where
  "resumo p =
     \<lparr>ex_id = id_pedido p, ex_valor = obter (valor_total p) 0, ex_data = data_pedido p\<rparr>"

record estatisticas =
  media_valor_pedido :: real
  mediana_valor_pedido :: real
  desvio_padrao_valor :: real
  maior_pedido :: extremo
  menor_pedido :: extremo

text \<open>The empty dictionary that the source returns for an empty batch is \<open>None\<close>.\<close>

definition calcular_estatisticas_avancadas :: "pedido list \<Rightarrow> estatisticas option" where
  "calcular_estatisticas_avancadas pedidos =
     (case pedidos of
        [] \<Rightarrow> None
      | p # resto \<Rightarrow>
          (let valores_pedidos = map (\<lambda>q. obter (valor_total q) 0) pedidos
           in Some
                \<lparr>media_valor_pedido = mean valores_pedidos,
                 mediana_valor_pedido = median valores_pedidos,
                 desvio_padrao_valor =
                   (if length valores_pedidos > 1 then stdev valores_pedidos else 0),
                 maior_pedido = resumo (max_por (\<lambda>q. obter (valor_total q) 0) p resto),
                 menor_pedido = resumo (min_por (\<lambda>q. obter (valor_total q) 0) p resto)\<rparr>))"

record tendencia_vendas =
  tendencia :: string
  crescimento_diario :: real
  inclinacao :: "real option"

definition estavel :: tendencia_vendas where
  "estavel = \<lparr>tendencia = ''estavel'', crescimento_diario = 0, inclinacao = None\<rparr>"

fun periodo_laco :: "leitor_iso \<Rightarrow> int \<Rightarrow> pedido list \<Rightarrow> pedido list \<Rightarrow> pedido list" where
  "periodo_laco ler data_inicio pedidos_periodo [] = pedidos_periodo"
| "periodo_laco ler data_inicio pedidos_periodo (p # resto) =
     periodo_laco ler data_inicio
       (case converter ler (data_pedido p) of
          None \<Rightarrow> pedidos_periodo
        | Some d \<Rightarrow>
            (case tzinfo d of
               Some fuso \<Rightarrow> pedidos_periodo
             | None \<Rightarrow>
                 if instante_us d \<ge> data_inicio then pedidos_periodo @ [p]
                 else pedidos_periodo))
       resto"

definition regressao :: "real list \<Rightarrow> tendencia_vendas" where
  "regressao valores =
     (let n = length valores;
          dias_lista = [0..<n]
      in if n > 1 then
           (let media_x = real (sum_list dias_lista) / real n;
                media_y = sum_list valores / real n;
                numerador =
                  sum_list (map (\<lambda>i. (real (dias_lista ! i) - media_x) * (valores ! i - media_y))
                              [0..<n]);
                denominador =
                  sum_list (map (\<lambda>i. (real (dias_lista ! i) - media_x)\<^sup>2) [0..<n])
            in if denominador \<noteq> 0 then
                 (let inc = numerador / denominador
                  in \<lparr>tendencia =
                        (if inc > 0 then ''crescente''
                         else if inc < 0 then ''decrescente'' else ''estavel''),
                      crescimento_diario = inc, inclinacao = Some inc\<rparr>)
               else estavel)
         else estavel)"

definition analise_tendencia_vendas ::
  "leitor_iso \<Rightarrow> datetime \<Rightarrow> pedido list \<Rightarrow> int \<Rightarrow> erro + tendencia_vendas" where
  "analise_tendencia_vendas ler agora pedidos dias =
     (case menos_dias (instante_us agora) dias of
        Inl e \<Rightarrow> Inl e
      | Inr data_inicio \<Rightarrow>
          (let pedidos_periodo = periodo_laco ler data_inicio [] pedidos
           in if pedidos_periodo = [] then Inr estavel
              else
                (let vendas_por_dia = agrupar_por_periodo ler pedidos_periodo ''dia''
                 in if length vendas_por_dia < 2 then Inr estavel
                    else Inr (regressao (map snd vendas_por_dia)))))"

text \<open>
  \<^verbatim>\<open>[x] * n\<close> is the empty list for a negative \<open>n\<close>; \<^verbatim>\<open>valores[-7:]\<close> are the last seven
  elements.
\<close>

definition previsao_vendas_simples :: "leitor_iso \<Rightarrow> pedido list \<Rightarrow> int \<Rightarrow> real list" where
  "previsao_vendas_simples ler pedidos dias_futuros =
     (if pedidos = [] then replicate (nat dias_futuros) 0
      else
        (let vendas_por_dia = agrupar_por_periodo ler pedidos ''dia''
         in if vendas_por_dia = [] then replicate (nat dias_futuros) 0
            else
              (let valores = map snd vendas_por_dia;
                   media_movel =
                     (if length valores \<ge> 7
                      then sum_list (drop (length valores - 7) valores) / 7
                      else sum_list valores / real (length valores))
               in replicate (nat dias_futuros) media_movel)))"

text \<open>
  \<^verbatim>\<open>gerar_relatorio_completo\<close> reads the clock up to three times: in
  \<^verbatim>\<open>calcular_crescimento_vendas\<close> (when the batch is not empty), in
  \<^verbatim>\<open>analise_tendencia_vendas\<close> and for \<^verbatim>\<open>'data_geracao'\<close>. The three readings are the
  fields of \<open>relogio\<close>. \<^verbatim>\<open>'data_geracao'\<close> holds the \<^verbatim>\<open>isoformat()\<close> text of the third
  reading; the model keeps the reading itself.
\<close>

record relogio =
  leitura_crescimento :: datetime
  leitura_tendencia :: datetime
  leitura_geracao :: datetime

record relatorio =
  metricas_principais :: metricas
  estatisticas_avancadas :: "estatisticas option"
  rel_tendencia_vendas :: tendencia_vendas
  previsao_vendas :: "real list"
  rel_horarios_pico :: "(nat \<times> nat) list"
  rel_dias_semana_performance :: "(string \<times> real) list"
  itens_mais_vendidos :: "item_popular list"
  vendas_por_dia :: "(string \<times> real) list"
  vendas_por_semana :: "(string \<times> real) list"
  vendas_por_mes :: "(string \<times> real) list"
  data_geracao :: datetime

definition gerar_relatorio_completo :: "leitor_iso \<Rightarrow> relogio \<Rightarrow> pedido list \<Rightarrow> erro + relatorio"
where
  "gerar_relatorio_completo ler r pedidos =
     (case calcular_metricas_principais ler (leitura_crescimento r) pedidos of
        Inl e \<Rightarrow> Inl e
      | Inr m \<Rightarrow>
          (case analise_tendencia_vendas ler (leitura_tendencia r) pedidos 30 of
             Inl e \<Rightarrow> Inl e
           | Inr t \<Rightarrow>
               Inr \<lparr>metricas_principais = m,
                    estatisticas_avancadas = calcular_estatisticas_avancadas pedidos,
                    rel_tendencia_vendas = t,
                    previsao_vendas = previsao_vendas_simples ler pedidos 7,
                    rel_horarios_pico = horarios_pico ler pedidos,
                    rel_dias_semana_performance = dias_semana_performance ler pedidos,
                    itens_mais_vendidos = itens_mais_populares pedidos 10,
                    vendas_por_dia = agrupar_por_periodo ler pedidos ''dia'',
                    vendas_por_semana = agrupar_por_periodo ler pedidos ''semana'',
                    vendas_por_mes = agrupar_por_periodo ler pedidos ''mes'',
                    data_geracao = leitura_geracao r\<rparr>))"

section \<open>A reader for the concrete examples\<close>

text \<open>
  The examples below need one concrete reader. \<open>fromisoformat_basico\<close> accepts the texts
  \<^verbatim>\<open>YYYY-MM-DD\<close> and \<^verbatim>\<open>YYYY-MM-DD?HH:MM:SS\<close>, the latter optionally followed by an offset
  \<^verbatim>\<open>+HH:MM\<close> or \<^verbatim>\<open>-HH:MM\<close>, with every field in range, and rejects every other text. On the
  texts it accepts it returns what \<^verbatim>\<open>datetime.fromisoformat\<close> returns in every Python
  version that has the function. No general theorem depends on it.
\<close>

definition digito :: "char \<Rightarrow> nat option" where
  "digito c =
     (let n = (of_char c :: nat)
      in if n < 48 then None else if n > 57 then None else Some (n - 48))"

fun ler_numero :: "nat \<Rightarrow> string \<Rightarrow> nat option" where
  "ler_numero acc [] = Some acc"
| "ler_numero acc (c # cs) =
     (case digito c of None \<Rightarrow> None | Some d \<Rightarrow> ler_numero (10 * acc + d) cs)"

definition ler_data :: "string \<Rightarrow> (nat \<times> nat \<times> nat) option" where
  "ler_data s =
     (if length s = 10 \<and> s ! 4 = CHR ''-'' \<and> s ! 7 = CHR ''-'' then
        (case ler_numero 0 (take 4 s) of
           None \<Rightarrow> None
         | Some y \<Rightarrow>
             (case ler_numero 0 (take 2 (drop 5 s)) of
                None \<Rightarrow> None
              | Some m \<Rightarrow>
                  (case ler_numero 0 (drop 8 s) of
                     None \<Rightarrow> None
                   | Some d \<Rightarrow>
                       if 1 \<le> y \<and> 1 \<le> m \<and> m \<le> 12 \<and> 1 \<le> d \<and> d \<le> days_in_month y m
                       then Some (y, m, d) else None)))
      else None)"

definition ler_hora :: "string \<Rightarrow> (nat \<times> nat \<times> nat) option" where
  "ler_hora s =
     (if length s = 8 \<and> s ! 2 = CHR '':'' \<and> s ! 5 = CHR '':'' then
        (case ler_numero 0 (take 2 s) of
           None \<Rightarrow> None
         | Some h \<Rightarrow>
             (case ler_numero 0 (take 2 (drop 3 s)) of
                None \<Rightarrow> None
              | Some mi \<Rightarrow>
                  (case ler_numero 0 (drop 6 s) of
                     None \<Rightarrow> None
                   | Some se \<Rightarrow>
                       if h < 24 \<and> mi < 60 \<and> se < 60 then Some (h, mi, se) else None)))
      else None)"

definition ler_fuso :: "string \<Rightarrow> int option option" where
  "ler_fuso s =
     (if s = [] then Some None
      else if length s = 6 \<and> (s ! 0 = CHR ''+'' \<or> s ! 0 = CHR ''-'') \<and> s ! 3 = CHR '':'' then
        (case ler_numero 0 (take 2 (drop 1 s)) of
           None \<Rightarrow> None
         | Some h \<Rightarrow>
             (case ler_numero 0 (drop 4 s) of
                None \<Rightarrow> None
              | Some mi \<Rightarrow>
                  if h < 24 \<and> mi < 60
                  then Some (Some ((if s ! 0 = CHR ''-'' then - 1 else 1) * int (60 * h + mi)))
                  else None))
      else None)"

definition fromisoformat_basico :: leitor_iso where
  "fromisoformat_basico s =
     (case ler_data (take 10 s) of
        None \<Rightarrow> None
      | Some (y, m, d) \<Rightarrow>
          if length s = 10
          then Some \<lparr>year = y, month = m, day = d, hour = 0, minute = 0, second = 0,
                     microsecond = 0, tzinfo = None\<rparr>
          else
            (case ler_hora (take 8 (drop 11 s)) of
               None \<Rightarrow> None
             | Some (h, mi, se) \<Rightarrow>
                 (case ler_fuso (drop 19 s) of
                    None \<Rightarrow> None
                  | Some fuso \<Rightarrow>
                      Some \<lparr>year = y, month = m, day = d, hour = h, minute = mi, second = se,
                            microsecond = 0, tzinfo = fuso\<rparr>)))"

definition pedido_em :: "string \<Rightarrow> real \<Rightarrow> pedido" where
  "pedido_em quando v = pedido_simples v (Texto quando)"

section \<open>Predicates of the specification\<close>

text \<open>
  The timestamp of an order is present and parseable: the lines that read it arrive at a
  datetime.
\<close>

definition data_legivel :: "leitor_iso \<Rightarrow> pedido \<Rightarrow> bool" where
  "data_legivel ler p = (converter ler (data_pedido p) \<noteq> None)"

text \<open>
  A clock reading from which the code can step back two windows of 30 days without
  leaving the range of \<^verbatim>\<open>datetime\<close>: any reading after February of the year 1.
\<close>

definition relogio_valido :: "datetime \<Rightarrow> bool" where
  "relogio_valido agora =
     (us_min + 60 * us_por_dia \<le> instante_us agora \<and> instante_us agora \<le> us_max)"

definition em :: "nat \<Rightarrow> nat \<Rightarrow> nat \<Rightarrow> nat \<Rightarrow> datetime" where
  "em y m d h =
     \<lparr>year = y, month = m, day = d, hour = h, minute = 0, second = 0, microsecond = 0,
      tzinfo = None\<rparr>"

text \<open>
  The item names in the order in which \<open>itens_mais_populares\<close> meets them while it scans
  the batch, and the position at which a name is met first.
\<close>

definition nome_item :: "item \<Rightarrow> string" where
  "nome_item i = obter (nome i) ''Item sem nome''"

definition nomes_vistos :: "pedido list \<Rightarrow> string list" where
  "nomes_vistos ps =
     concat (map (\<lambda>p. case itens p of Some linhas \<Rightarrow> map nome_item linhas | None \<Rightarrow> []) ps)"

definition primeira_posicao :: "'a \<Rightarrow> 'a list \<Rightarrow> nat" where
  "primeira_posicao x xs = length (takeWhile (\<lambda>y. y \<noteq> x) xs)"

text \<open>
  The order of the ranking: a larger total quantity comes first, and of two entries with
  the same total quantity the one whose name was met first.
\<close>

definition precede :: "pedido list \<Rightarrow> item_popular \<Rightarrow> item_popular \<Rightarrow> bool" where
  "precede ps a b =
     (if quantidade_total a = quantidade_total b
      then primeira_posicao (ip_nome a) (nomes_vistos ps)
             < primeira_posicao (ip_nome b) (nomes_vistos ps)
      else quantidade_total a > quantidade_total b)"

text \<open>The keys \<open>ks\<close> of a dictionary are the names of \<open>ns\<close>, in the order of first occurrence.\<close>

definition em_ordem :: "'a list \<Rightarrow> 'a list \<Rightarrow> bool" where
  "em_ordem ns ks =
     (set ks = set ns
      \<and> sorted_wrt (\<lambda>a b. primeira_posicao a ns < primeira_posicao b ns) ks)"

definition um_item :: "string \<Rightarrow> real \<Rightarrow> item" where
  "um_item n q = \<lparr>nome = Some n, quantidade = Some q, valor = Some 1, preco_unitario = None\<rparr>"

definition pedido_com :: "item list \<Rightarrow> pedido" where
  "pedido_com linhas =
     \<lparr>id_pedido = None, data_pedido = Ausente, valor_total = None, itens = Some linhas\<rparr>"

definition lote_itens :: "pedido list" where
  "lote_itens =
     [pedido_com [um_item ''agua'' 2, um_item ''bolo'' 3],
      pedido_com [um_item ''cafe'' 2, um_item ''agua'' 1, um_item ''doce'' 3]]"

text \<open>
  The value that the specification gives for every day of the forecast: 0 when grouping by
  day yields no bucket, the mean of the last seven daily buckets when there are seven at
  least, the mean of all buckets otherwise.
\<close>

definition media_prevista :: "leitor_iso \<Rightarrow> pedido list \<Rightarrow> real" where
  "media_prevista ler pedidos =
     (let valores = map snd (agrupar_por_periodo ler pedidos ''dia'')
      in if valores = [] then 0
         else if length valores \<ge> 7 then sum_list (drop (length valores - 7) valores) / 7
         else sum_list valores / real (length valores))"

text \<open>One order on each of ten consecutive days, with the given values.\<close>

definition dez_dias :: "real list \<Rightarrow> pedido list" where
  "dez_dias vs =
     map (\<lambda>(quando, v). pedido_em quando v)
       (zip [''2024-02-25T12:00:00'', ''2024-02-26T12:00:00'', ''2024-02-27T12:00:00'',
             ''2024-02-28T12:00:00'', ''2024-02-29T12:00:00'', ''2024-03-01T12:00:00'',
             ''2024-03-02T12:00:00'', ''2024-03-03T12:00:00'', ''2024-03-04T12:00:00'',
             ''2024-03-05T12:00:00''] vs)"

text \<open>
  The parts of the current and the previous window in \<open>calcular_crescimento_vendas\<close>, for
  the bounds \<open>periodo_atual\<close> and \<open>periodo_anterior\<close>: the orders that the loop appends to
  \<^verbatim>\<open>vendas_atual\<close> and to \<^verbatim>\<open>vendas_anterior\<close>. Only an order whose date is read and carries
  no UTC offset has an instant that the loop can compare.
\<close>

definition instante_ingenuo :: "leitor_iso \<Rightarrow> pedido \<Rightarrow> int option" where
  "instante_ingenuo ler p =
     (case converter ler (data_pedido p) of
        None \<Rightarrow> None
      | Some d \<Rightarrow> (case tzinfo d of Some fuso \<Rightarrow> None | None \<Rightarrow> Some (instante_us d)))"

definition janela_atual :: "leitor_iso \<Rightarrow> int \<Rightarrow> pedido list \<Rightarrow> pedido list" where
  "janela_atual ler periodo_atual ps =
     filter (\<lambda>p. case instante_ingenuo ler p of None \<Rightarrow> False | Some t \<Rightarrow> periodo_atual \<le> t) ps"

definition janela_anterior :: "leitor_iso \<Rightarrow> int \<Rightarrow> int \<Rightarrow> pedido list \<Rightarrow> pedido list" where
  "janela_anterior ler periodo_atual periodo_anterior ps =
     filter (\<lambda>p. case instante_ingenuo ler p of
                    None \<Rightarrow> False
                  | Some t \<Rightarrow> periodo_anterior \<le> t \<and> t < periodo_atual) ps"

text \<open>Both clock readings that enter a window computation are valid.\<close>

definition relogio_ok :: "relogio \<Rightarrow> bool" where
  "relogio_ok r = (relogio_valido (leitura_crescimento r) \<and> relogio_valido (leitura_tendencia r))"

definition relogio_em :: "datetime \<Rightarrow> relogio" where
  "relogio_em agora =
     \<lparr>leitura_crescimento = agora, leitura_tendencia = agora, leitura_geracao = agora\<rparr>"

definition lote_outubro :: "pedido list" where
  "lote_outubro = [pedido_em ''2026-10-01T10:00:00'' 100]"

section \<open>Total sales\<close>

lemma soma_itens_acc: "soma_itens tot linhas = tot + sum_list (map valor_linha linhas)"
  by (induction linhas arbitrary: tot) (simp_all add: valor_linha_def)

lemma soma_pedidos_acc: "soma_pedidos tot ps = tot + sum_list (map contribuicao ps)"
proof (induction ps arbitrary: tot)
  case Nil
  show ?case by simp
next
  case (Cons p ps)
  show ?case
    by (cases "itens p") (simp_all add: Cons.IH contribuicao_def soma_itens_acc)
qed

lemma vendas_totais_soma: "calcular_vendas_totais ps = sum_list (map contribuicao ps)"
  by (simp add: calcular_vendas_totais_def soma_pedidos_acc)

lemma vendas_totais_append:
  "calcular_vendas_totais (xs @ ys) = calcular_vendas_totais xs + calcular_vendas_totais ys"
  by (simp add: vendas_totais_soma)

text \<open>
  C1. For every batch, \<open>calcular_vendas_totais\<close> is the sum over the batch of each order's
  contribution (line items: sum of price times quantity; no line items: total value);
  the empty batch gives 0; the batch with total values 100, 200, 50 and no line items
  gives 350.
\<close>

theorem C1_calcular_vendas_totais:
  "calcular_vendas_totais ps = sum_list (map contribuicao ps)
   \<and> calcular_vendas_totais [] = 0
   \<and> calcular_vendas_totais
        [pedido_simples 100 d1, pedido_simples 200 d1, pedido_simples 50 d2] = 350"
  by (simp add: vendas_totais_soma contribuicao_def pedido_simples_def obter_def)

text \<open>
  C10. An order whose \<^verbatim>\<open>'itens'\<close> key is present with an empty list contributes 0 to
  \<open>calcular_vendas_totais\<close>, whatever its total value: adding such an order anywhere in a
  batch leaves the total unchanged.
\<close>

theorem C10_itens_vazio:
  "calcular_vendas_totais (antes @ [p\<lparr>itens := Some []\<rparr>] @ depois)
     = calcular_vendas_totais (antes @ depois)
   \<and> calcular_vendas_totais [p\<lparr>itens := Some []\<rparr>] = 0"
  by (simp add: vendas_totais_soma contribuicao_def)

section \<open>Grouping by period\<close>

lemma acumular_soma:
  fixes v :: "'v::comm_monoid_add"
  shows "sum_list (map snd (acumular k v d)) = sum_list (map snd d) + v"
  by (induction d) (auto simp: ac_simps)

lemma acumular_chaves:
  "map fst (acumular k v d) = (if k \<in> fst ` set d then map fst d else map fst d @ [k])"
  by (induction d) force+

lemma acumular_distinct: "distinct (map fst d) \<Longrightarrow> distinct (map fst (acumular k v d))"
  by (simp add: acumular_chaves)

lemma agrupar_laco_soma:
  "sum_list (map snd (agrupar_laco ler tipo d ps))
     = sum_list (map snd d)
       + sum_list (map (\<lambda>p. obter (valor_total p) 0) (filter (data_legivel ler) ps))"
proof (induction ps arbitrary: d)
  case Nil
  show ?case by simp
next
  case (Cons p ps)
  show ?case
    by (cases "converter ler (data_pedido p)")
       (simp_all add: Cons.IH data_legivel_def acumular_soma)
qed

lemma agrupar_laco_distinct:
  "distinct (map fst d) \<Longrightarrow> distinct (map fst (agrupar_laco ler tipo d ps))"
proof (induction ps arbitrary: d)
  case Nil
  then show ?case by simp
next
  case (Cons p ps)
  then show ?case
    by (cases "converter ler (data_pedido p)") (simp_all add: acumular_distinct)
qed

lemma sorted_items_soma:
  fixes d :: "('k::linorder \<times> real) list"
  shows "sum_list (map snd (sorted_items d)) = sum_list (map snd d)"
proof -
  have "mset (map snd (sorted_items d)) = mset (map snd d)"
    by (simp add: sorted_items_def)
  then show ?thesis
    by (metis sum_mset_sum_list)
qed

lemma sorted_items_crescente:
  assumes "distinct (map fst d)"
  shows "sorted_wrt (<) (map fst (sorted_items d))"
proof -
  have "mset (map fst (sorted_items d)) = mset (map fst d)"
    by (simp add: sorted_items_def)
  then have "distinct (map fst (sorted_items d))"
    using assms by (metis mset_eq_imp_distinct_iff)
  moreover have "sorted (map fst (sorted_items d))"
    by (simp add: sorted_items_def)
  ultimately show ?thesis
    by (simp add: strict_sorted_iff)
qed

text \<open>
  C4. For every batch and every period kind, the keys of \<open>agrupar_por_periodo\<close> are strictly
  ascending in the order of strings, and the bucket values add up to the sum of
  \<^verbatim>\<open>valor_total\<close> (default 0) over the orders whose timestamp is present and parseable.
\<close>

theorem C4_agrupar_por_periodo:
  "sorted_wrt (<) (map fst (agrupar_por_periodo ler ps tipo))
   \<and> sum_list (map snd (agrupar_por_periodo ler ps tipo))
       = sum_list (map (\<lambda>p. obter (valor_total p) 0) (filter (data_legivel ler) ps))"
  by (simp add: agrupar_por_periodo_def sorted_items_soma sorted_items_crescente
      agrupar_laco_soma agrupar_laco_distinct)

section \<open>Orders whose date cannot be read\<close>

lemma horarios_laco_append:
  "horarios_laco ler c (xs @ ys) = horarios_laco ler (horarios_laco ler c xs) ys"
  by (induction xs arbitrary: c) simp_all

lemma dias_semana_laco_append:
  "dias_semana_laco ler c (xs @ ys) = dias_semana_laco ler (dias_semana_laco ler c xs) ys"
  by (induction xs arbitrary: c) simp_all

lemma converter_ilegivel:
  "data_pedido p = Texto s \<Longrightarrow> ler (replace_Z s) = None \<Longrightarrow> converter ler (data_pedido p) = None"
  by (simp add: converter_def)

text \<open>
  C8. An order whose timestamp is a string that \<^verbatim>\<open>fromisoformat\<close> rejects adds its value to
  \<open>calcular_vendas_totais\<close> and leaves the results of \<open>horarios_pico\<close> and
  \<open>dias_semana_performance\<close> as they are without it, wherever it stands in the batch. The
  three functions return a value on every batch: the rejection is caught inside the loop.
\<close>

theorem C8_data_ilegivel:
  assumes "data_pedido p = Texto s" and "ler (replace_Z s) = None"
  shows "calcular_vendas_totais (antes @ [p] @ depois)
           = calcular_vendas_totais (antes @ depois) + contribuicao p
         \<and> horarios_pico ler (antes @ [p] @ depois) = horarios_pico ler (antes @ depois)
         \<and> dias_semana_performance ler (antes @ [p] @ depois)
             = dias_semana_performance ler (antes @ depois)"
proof -
  have c: "converter ler (data_pedido p) = None"
    using assms by (rule converter_ilegivel)
  have "calcular_vendas_totais (antes @ [p] @ depois)
          = calcular_vendas_totais (antes @ depois) + contribuicao p"
    by (simp add: vendas_totais_soma)
  moreover have "horarios_pico ler (antes @ [p] @ depois) = horarios_pico ler (antes @ depois)"
    by (simp add: horarios_pico_def horarios_laco_append c)
  moreover have "dias_semana_performance ler (antes @ [p] @ depois)
                   = dias_semana_performance ler (antes @ depois)"
    by (simp add: dias_semana_performance_def dias_semana_laco_append c)
  ultimately show ?thesis by simp
qed

lemma ilegivel_ontem: "fromisoformat_basico (replace_Z ''ontem'') = None"
  by (simp add: fromisoformat_basico_def replace_Z_def ler_data_def)

theorem C8_data_ilegivel_witness:
  "data_pedido (pedido_em ''ontem'' 40) = Texto ''ontem''
   \<and> fromisoformat_basico (replace_Z ''ontem'') = None
   \<and> calcular_vendas_totais [pedido_em ''2024-03-05T10:00:00'' 10, pedido_em ''ontem'' 40] = 50
   \<and> horarios_pico fromisoformat_basico
        [pedido_em ''2024-03-05T10:00:00'' 10, pedido_em ''ontem'' 40]
       = horarios_pico fromisoformat_basico [pedido_em ''2024-03-05T10:00:00'' 10]
   \<and> dias_semana_performance fromisoformat_basico
        [pedido_em ''2024-03-05T10:00:00'' 10, pedido_em ''ontem'' 40]
       = dias_semana_performance fromisoformat_basico [pedido_em ''2024-03-05T10:00:00'' 10]"
proof -
  have h1: "data_pedido (pedido_em ''ontem'' 40) = Texto ''ontem''"
    by (simp add: pedido_em_def pedido_simples_def)
  have v: "calcular_vendas_totais [pedido_em ''2024-03-05T10:00:00'' 10] = 10"
    "contribuicao (pedido_em ''ontem'' 40) = 40"
    by (simp_all add: vendas_totais_soma contribuicao_def pedido_em_def pedido_simples_def obter_def)
  show ?thesis
    using C8_data_ilegivel
        [where ler = fromisoformat_basico and antes = "[pedido_em ''2024-03-05T10:00:00'' 10]"
           and depois = "[]", OF h1 ilegivel_ontem]
      h1 ilegivel_ontem v
    by simp
qed

section \<open>Core metrics\<close>

lemma menos_dias_Inr:
  "abs dias \<le> 999999999 \<Longrightarrow> us_min \<le> t - dias * us_por_dia \<Longrightarrow> t - dias * us_por_dia \<le> us_max
     \<Longrightarrow> menos_dias t dias = Inr (t - dias * us_por_dia)"
  by (simp add: menos_dias_def)

lemma crescimento_retorna:
  assumes "relogio_valido agora"
  shows "\<exists>c. calcular_crescimento_vendas ler agora ps 30 = Inr c"
proof -
  let ?t = "instante_us agora"
  have r: "us_min + 60 * us_por_dia \<le> ?t" "?t \<le> us_max"
    using assms by (simp_all add: relogio_valido_def)
  have p: "0 < us_por_dia" by (simp add: us_por_dia_def)
  have a: "menos_dias ?t 30 = Inr (?t - 30 * us_por_dia)"
    using r p by (intro menos_dias_Inr) simp_all
  have b: "menos_dias (?t - 30 * us_por_dia) 30 = Inr (?t - 30 * us_por_dia - 30 * us_por_dia)"
    using r p by (intro menos_dias_Inr) simp_all
  show ?thesis
    by (simp add: calcular_crescimento_vendas_def a b split: prod.split)
qed

text \<open>
  C2. For every non-empty batch, and a clock reading from which two windows of 30 days can
  be subtracted, \<open>calcular_metricas_principais\<close> returns metrics whose order count is the
  length of the batch, whose total is \<open>calcular_vendas_totais\<close> of the batch, and whose
  average ticket times the order count is the total (exactly, on real numbers).
\<close>

theorem C2_ticket_medio:
  assumes "pedidos \<noteq> []" and "relogio_valido agora"
  shows "\<exists>m. calcular_metricas_principais ler agora pedidos = Inr m
           \<and> total_pedidos m = length pedidos
           \<and> vendas_totais m = calcular_vendas_totais pedidos
           \<and> ticket_medio m * real (total_pedidos m) = vendas_totais m"
proof -
  obtain c where c: "calcular_crescimento_vendas ler agora pedidos 30 = Inr c"
    using crescimento_retorna [OF assms(2)] by blast
  have n: "0 < length pedidos" using assms(1) by simp
  show ?thesis
    using assms(1) n by (simp add: calcular_metricas_principais_def c Let_def)
qed

lemma relogio_2026: "relogio_valido (em 2026 11 4 12)"
  by (simp add: relogio_valido_def em_def instante_us_def toordinal_def ymd2ord_def
      days_before_year_def days_before_month_def days_in_month_def is_leap_def us_min_def
      us_max_def us_por_dia_def upt_rec)

theorem C2_ticket_medio_witness:
  "[pedido_simples 100 Ausente, pedido_simples 50 Ausente] \<noteq> []
   \<and> relogio_valido (em 2026 11 4 12)
   \<and> (\<exists>m. calcular_metricas_principais fromisoformat_basico (em 2026 11 4 12)
              [pedido_simples 100 Ausente, pedido_simples 50 Ausente] = Inr m
           \<and> total_pedidos m = 2 \<and> vendas_totais m = 150 \<and> ticket_medio m * 2 = 150)"
proof -
  have v: "calcular_vendas_totais [pedido_simples 100 Ausente, pedido_simples 50 Ausente] = 150"
    by (simp add: vendas_totais_soma contribuicao_def pedido_simples_def obter_def)
  have ne: "[pedido_simples 100 Ausente, pedido_simples 50 Ausente] \<noteq> []" by simp
  show ?thesis
    using C2_ticket_medio [OF ne relogio_2026, of fromisoformat_basico] relogio_2026 v
    by auto
qed

section \<open>Ranking of items\<close>

lemma contar_chaves:
  "map fst (contar n q v d) = (if n \<in> fst ` set d then map fst d else map fst d @ [n])"
proof (induction d)
  case Nil
  show ?case by simp
next
  case (Cons x d)
  obtain k e where x: "x = (k, e)" by (cases x)
  show ?case
    unfolding x using Cons.IH by (cases "n = k") (simp_all add: image_iff)
qed

lemma contar_nome_chave:
  "\<forall>x\<in>set d. ip_nome (snd x) = fst x \<Longrightarrow> \<forall>x\<in>set (contar n q v d). ip_nome (snd x) = fst x"
proof (induction d)
  case Nil
  show ?case by simp
next
  case (Cons x d)
  obtain k e where x: "x = (k, e)" by (cases x)
  have "\<forall>y\<in>set (contar n q v d). ip_nome (snd y) = fst y"
    using Cons by simp
  then show ?case
    unfolding x using Cons.prems x by (cases "n = k") simp_all
qed

lemma contar_nomes:
  assumes "map (\<lambda>x. ip_nome (snd x)) d = map fst d"
  shows "map (\<lambda>x. ip_nome (snd x)) (contar n q v d) = map fst (contar n q v d)"
proof -
  have "\<forall>x\<in>set d. ip_nome (snd x) = fst x"
    using assms by (simp only: map_eq_conv)
  then have "\<forall>x\<in>set (contar n q v d). ip_nome (snd x) = fst x"
    by (rule contar_nome_chave)
  then show ?thesis
    by (simp only: map_eq_conv)
qed

lemma primeira_posicao_append:
  "a \<in> set ns \<Longrightarrow> primeira_posicao a (ns @ ms) = primeira_posicao a ns"
  by (simp add: primeira_posicao_def takeWhile_append1)

lemma primeira_posicao_menor: "a \<in> set ns \<Longrightarrow> primeira_posicao a ns < length ns"
  unfolding primeira_posicao_def by (induction ns) auto

lemma primeira_posicao_novo: "a \<notin> set ns \<Longrightarrow> primeira_posicao a (ns @ a # ms) = length ns"
proof -
  assume "a \<notin> set ns"
  then have "takeWhile (\<lambda>y. y \<noteq> a) (ns @ a # ms) = ns"
    by (subst takeWhile_append2) auto
  then show ?thesis by (simp add: primeira_posicao_def)
qed

lemma em_ordem_passo:
  assumes "em_ordem ns (map fst d)"
  shows "em_ordem (ns @ [n]) (map fst (contar n q v d))"
proof (cases "n \<in> fst ` set d")
  case True
  then have n: "n \<in> set ns" using assms by (auto simp: em_ordem_def)
  have "sorted_wrt (\<lambda>a b. primeira_posicao a (ns @ [n]) < primeira_posicao b (ns @ [n])) (map fst d)"
  proof (rule sorted_wrt_mono_rel [rotated])
    show "sorted_wrt (\<lambda>a b. primeira_posicao a ns < primeira_posicao b ns) (map fst d)"
      using assms by (simp add: em_ordem_def)
  next
    fix a b assume "a \<in> set (map fst d)" "b \<in> set (map fst d)"
      "primeira_posicao a ns < primeira_posicao b ns"
    moreover have "set (map fst d) = set ns" using assms by (simp add: em_ordem_def)
    ultimately show "primeira_posicao a (ns @ [n]) < primeira_posicao b (ns @ [n])"
      by (simp add: primeira_posicao_append)
  qed
  then show ?thesis
    using True n assms by (auto simp: em_ordem_def contar_chaves)
next
  case False
  have s: "set (map fst d) = set ns" using assms by (simp add: em_ordem_def)
  then have n: "n \<notin> set ns" using False by auto
  have a: "sorted_wrt (\<lambda>a b. primeira_posicao a (ns @ [n]) < primeira_posicao b (ns @ [n])) (map fst d)"
  proof (rule sorted_wrt_mono_rel [rotated])
    show "sorted_wrt (\<lambda>a b. primeira_posicao a ns < primeira_posicao b ns) (map fst d)"
      using assms by (simp add: em_ordem_def)
  next
    fix a b assume "a \<in> set (map fst d)" "b \<in> set (map fst d)"
      "primeira_posicao a ns < primeira_posicao b ns"
    then show "primeira_posicao a (ns @ [n]) < primeira_posicao b (ns @ [n])"
      using s by (simp add: primeira_posicao_append)
  qed
  have b: "\<forall>x\<in>set (map fst d). primeira_posicao x (ns @ [n]) < primeira_posicao n (ns @ [n])"
    using s n by (simp add: primeira_posicao_append primeira_posicao_novo primeira_posicao_menor)
  have "sorted_wrt (\<lambda>a b. primeira_posicao a (ns @ [n]) < primeira_posicao b (ns @ [n]))
          (map fst d @ [n])"
    using a b by (simp add: sorted_wrt_append)
  then show ?thesis
    using False s by (simp add: em_ordem_def contar_chaves)
qed

lemma contar_itens_ordem:
  "em_ordem ns (map fst d) \<Longrightarrow> map (\<lambda>x. ip_nome (snd x)) d = map fst d
     \<Longrightarrow> em_ordem (ns @ map nome_item linhas) (map fst (contar_itens d linhas))
         \<and> map (\<lambda>x. ip_nome (snd x)) (contar_itens d linhas) = map fst (contar_itens d linhas)"
proof (induction linhas arbitrary: ns d)
  case Nil
  then show ?case by simp
next
  case (Cons i linhas)
  have "em_ordem (ns @ [nome_item i]) (map fst (contar_item i d))"
    unfolding contar_item_def nome_item_def by (rule em_ordem_passo [OF Cons.prems(1)])
  moreover have "map (\<lambda>x. ip_nome (snd x)) (contar_item i d) = map fst (contar_item i d)"
    unfolding contar_item_def by (rule contar_nomes [OF Cons.prems(2)])
  ultimately show ?case
    using Cons.IH [of "ns @ [nome_item i]" "contar_item i d"] by simp
qed

lemma contar_pedidos_ordem:
  "em_ordem ns (map fst d) \<Longrightarrow> map (\<lambda>x. ip_nome (snd x)) d = map fst d
     \<Longrightarrow> em_ordem (ns @ nomes_vistos ps) (map fst (contar_pedidos d ps))
         \<and> map (\<lambda>x. ip_nome (snd x)) (contar_pedidos d ps) = map fst (contar_pedidos d ps)"
proof (induction ps arbitrary: ns d)
  case Nil
  then show ?case by (simp add: nomes_vistos_def)
next
  case (Cons p ps)
  show ?case
  proof (cases "itens p")
    case None
    then show ?thesis
      using Cons.IH [OF Cons.prems] by (simp add: nomes_vistos_def)
  next
    case (Some linhas)
    have "em_ordem (ns @ map nome_item linhas) (map fst (contar_itens d linhas))
            \<and> map (\<lambda>x. ip_nome (snd x)) (contar_itens d linhas) = map fst (contar_itens d linhas)"
      by (rule contar_itens_ordem [OF Cons.prems])
    then show ?thesis
      using Cons.IH [of "ns @ map nome_item linhas" "contar_itens d linhas"] Some
      by (simp add: nomes_vistos_def)
  qed
qed

lemma contador_em_ordem:
  "sorted_wrt (\<lambda>a b. primeira_posicao (ip_nome a) (nomes_vistos ps)
                       < primeira_posicao (ip_nome b) (nomes_vistos ps))
     (map snd (contar_pedidos [] ps))"
proof -
  have ab: "em_ordem ([] @ nomes_vistos ps) (map fst (contar_pedidos [] ps))
          \<and> map (\<lambda>x. ip_nome (snd x)) (contar_pedidos [] ps) = map fst (contar_pedidos [] ps)"
    by (rule contar_pedidos_ordem) (simp_all add: em_ordem_def)
  have b: "map (\<lambda>x. ip_nome (snd x)) (contar_pedidos [] ps) = map fst (contar_pedidos [] ps)"
    using ab by (rule conjunct2)
  have "sorted_wrt (\<lambda>a b. primeira_posicao a (nomes_vistos ps)
                           < primeira_posicao b (nomes_vistos ps))
          (map fst (contar_pedidos [] ps))"
    using conjunct1 [OF ab] by (simp add: em_ordem_def)
  then have "sorted_wrt (\<lambda>a b. primeira_posicao a (nomes_vistos ps)
                                < primeira_posicao b (nomes_vistos ps))
               (map (\<lambda>x. ip_nome (snd x)) (contar_pedidos [] ps))"
    by (simp only: b)
  then show ?thesis
    by (simp add: sorted_wrt_map)
qed

lemma filtro_em_ordem:
  "sorted_wrt R (filter Q xs) \<Longrightarrow> i < j \<Longrightarrow> j < length xs \<Longrightarrow> Q (xs ! i) \<Longrightarrow> Q (xs ! j)
     \<Longrightarrow> R (xs ! i) (xs ! j)"
proof (induction xs arbitrary: i j)
  case Nil
  then show ?case by simp
next
  case (Cons x xs)
  show ?case
  proof (cases i)
    case 0
    then obtain j' where j: "j = Suc j'" using Cons.prems(2) by (cases j) auto
    have "xs ! j' \<in> set (filter Q xs)"
      using Cons.prems j by simp
    then show ?thesis
      using Cons.prems 0 j by auto
  next
    case (Suc i')
    then obtain j' where j: "j = Suc j'" using Cons.prems(2) by (cases j) auto
    have f: "sorted_wrt R (filter Q xs)"
      using Cons.prems(1) by (cases "Q x") simp_all
    have ij: "i' < j'" "j' < length xs" "Q (xs ! i')" "Q (xs ! j')"
      using Cons.prems Suc j by simp_all
    have "R (xs ! i') (xs ! j')"
      by (rule Cons.IH [OF f ij])
    then show ?thesis by (simp add: Suc j)
  qed
qed

lemma ordenados_precede: "sorted_wrt (precede ps) (itens_ordenados ps)"
proof -
  let ?f = "\<lambda>e. - quantidade_total e"
  let ?R = "\<lambda>a b. primeira_posicao (ip_nome a) (nomes_vistos ps)
                    < primeira_posicao (ip_nome b) (nomes_vistos ps)"
  let ?ord = "map snd (contar_pedidos [] ps)"
  let ?s = "itens_ordenados ps"
  have s: "?s = sort_key ?f ?ord" by (simp add: itens_ordenados_def)
  have srt: "sorted (map ?f ?s)" unfolding s by (rule sorted_sort_key)
  have "\<And>i j. i < j \<Longrightarrow> j < length ?s \<Longrightarrow> precede ps (?s ! i) (?s ! j)"
  proof -
    fix i j assume ij: "i < j" "j < length ?s"
    have le: "?f (?s ! i) \<le> ?f (?s ! j)"
      using sorted_nth_mono [OF srt, of i j] ij by simp
    show "precede ps (?s ! i) (?s ! j)"
    proof (cases "quantidade_total (?s ! i) = quantidade_total (?s ! j)")
      case False
      then show ?thesis using le by (simp add: precede_def)
    next
      case True
      let ?Q = "\<lambda>y. ?f y = ?f (?s ! i)"
      have "filter ?Q ?s = filter ?Q ?ord"
        unfolding s by (rule sort_key_stable)
      moreover have "sorted_wrt ?R (filter ?Q ?ord)"
        by (rule sorted_wrt_filter [OF contador_em_ordem])
      ultimately have f: "sorted_wrt ?R (filter ?Q ?s)" by simp
      have "?R (?s ! i) (?s ! j)"
        by (rule filtro_em_ordem [where R = ?R and Q = ?Q and xs = ?s, OF f ij])
           (simp_all add: True)
      then show ?thesis using True by (simp add: precede_def)
    qed
  qed
  then show ?thesis
    by (simp add: sorted_wrt_iff_nth_less)
qed

lemma slice_ate_take: "\<exists>n. slice_ate xs k = take n xs"
  by (auto simp: slice_ate_def)

text \<open>
  C7. For every batch and every limit that is not negative, the ranking of
  \<open>itens_mais_populares\<close> is in descending order of total quantity, two entries with the
  same total quantity stand in the order in which their names were first met in the
  batch, and the ranking has at most \<open>limite\<close> entries (at most 10 for the default).
\<close>

theorem C7_itens_mais_populares:
  assumes "0 \<le> limite"
  shows "sorted_wrt (\<lambda>a b. quantidade_total a \<ge> quantidade_total b)
           (itens_mais_populares ps limite)
         \<and> sorted_wrt (precede ps) (itens_mais_populares ps limite)
         \<and> int (length (itens_mais_populares ps limite)) \<le> limite
         \<and> length (itens_mais_populares ps 10) \<le> 10"
proof -
  obtain n where n: "itens_mais_populares ps limite = take n (itens_ordenados ps)"
    using slice_ate_take [of "itens_ordenados ps" limite] by (auto simp: itens_mais_populares_def)
  have p: "sorted_wrt (precede ps) (itens_mais_populares ps limite)"
    unfolding n by (rule sorted_wrt_take [OF ordenados_precede])
  have q: "sorted_wrt (\<lambda>a b. quantidade_total a \<ge> quantidade_total b)
             (itens_mais_populares ps limite)"
    by (rule sorted_wrt_mono_rel [OF _ p]) (auto simp: precede_def split: if_splits)
  have l: "int (length (itens_mais_populares ps limite)) \<le> limite"
    using assms by (simp add: itens_mais_populares_def slice_ate_def)
  have d: "length (itens_mais_populares ps 10) \<le> 10"
    by (simp add: itens_mais_populares_def slice_ate_def)
  show ?thesis using p q l d by simp
qed

lemma ranking_lote_itens:
  "map ip_nome (itens_mais_populares lote_itens 3) = [''agua'', ''bolo'', ''doce'']"
  by (simp add: itens_mais_populares_def slice_ate_def itens_ordenados_def lote_itens_def
      pedido_com_def um_item_def contar_item_def obter_def)

theorem C7_itens_mais_populares_witness:
  "(0::int) \<le> 3
   \<and> map ip_nome (itens_mais_populares lote_itens 3) = [''agua'', ''bolo'', ''doce'']
   \<and> sorted_wrt (\<lambda>a b. quantidade_total a \<ge> quantidade_total b)
         (itens_mais_populares lote_itens 3)
   \<and> sorted_wrt (precede lote_itens) (itens_mais_populares lote_itens 3)
   \<and> int (length (itens_mais_populares lote_itens 3)) \<le> 3"
  using C7_itens_mais_populares [of 3 lote_itens] ranking_lote_itens by simp

section \<open>Forecast\<close>

lemma agrupar_vazio: "agrupar_por_periodo ler [] tipo = []"
  by (simp add: agrupar_por_periodo_def sorted_items_def)

lemma previsao_media:
  "previsao_vendas_simples ler pedidos dias_futuros
     = replicate (nat dias_futuros) (media_prevista ler pedidos)"
proof (cases "pedidos = []")
  case True
  then show ?thesis
    by (simp add: previsao_vendas_simples_def media_prevista_def agrupar_vazio)
next
  case False
  then show ?thesis
    by (simp add: previsao_vendas_simples_def media_prevista_def Let_def)
qed

lemma agrupar_dez_dias:
  "agrupar_por_periodo fromisoformat_basico
     (dez_dias [v1, v2, v3, v4, v5, v6, v7, v8, v9, v10]) ''dia''
   = [(''2024-02-25'', v1), (''2024-02-26'', v2), (''2024-02-27'', v3), (''2024-02-28'', v4),
      (''2024-02-29'', v5), (''2024-03-01'', v6), (''2024-03-02'', v7), (''2024-03-03'', v8),
      (''2024-03-04'', v9), (''2024-03-05'', v10)]"
  by (simp add: agrupar_por_periodo_def sorted_items_def dez_dias_def pedido_em_def
      pedido_simples_def converter_def replace_Z_def chave_periodo_def obter_def
      fromisoformat_basico_def ler_data_def ler_hora_def ler_fuso_def digito_def
      days_in_month_def is_leap_def strftime_Ymd_def zfill_def str_nat.simps digit_char_def)

lemma media_dez_dias:
  "media_prevista fromisoformat_basico (dez_dias [v1, v2, v3, v4, v5, v6, v7, v8, v9, v10])
     = (v4 + v5 + v6 + v7 + v8 + v9 + v10) / 7"
  by (simp add: media_prevista_def agrupar_dez_dias)

text \<open>
  C6. For every batch and every number of days that is not negative,
  \<open>previsao_vendas_simples\<close> returns that many values, all equal to \<open>media_prevista\<close>:
  zero without daily buckets, else the mean of the last seven daily buckets when there are
  seven, else the mean of all of them. On a batch with one order on each of ten
  consecutive days, the forecast for 7 days is 7 times the mean of the last seven days.
\<close>

theorem C6_previsao_vendas_simples:
  assumes "0 \<le> dias_futuros"
  shows "int (length (previsao_vendas_simples ler pedidos dias_futuros)) = dias_futuros
         \<and> previsao_vendas_simples ler pedidos dias_futuros
             = replicate (nat dias_futuros) (media_prevista ler pedidos)
         \<and> previsao_vendas_simples fromisoformat_basico
               (dez_dias [v1, v2, v3, v4, v5, v6, v7, v8, v9, v10]) 7
             = replicate 7 ((v4 + v5 + v6 + v7 + v8 + v9 + v10) / 7)"
  using assms by (simp add: previsao_media media_dez_dias)

theorem C6_previsao_vendas_simples_witness:
  "(0::int) \<le> 7
   \<and> previsao_vendas_simples fromisoformat_basico
         (dez_dias [10, 20, 30, 40, 50, 60, 70, 80, 90, 100]) 7
       = [70, 70, 70, 70, 70, 70, 70]"
proof -
  have "replicate (nat 7) (70::real) = [70, 70, 70, 70, 70, 70, 70]"
    by (simp add: numeral_eq_Suc)
  then show ?thesis
    using C6_previsao_vendas_simples
      [of 7 fromisoformat_basico "dez_dias [10, 20, 30, 40, 50, 60, 70, 80, 90, 100]"]
      media_dez_dias [of 10 20 30 40 50 60 70 80 90 100]
    by simp
qed

section \<open>Weekly buckets\<close>

lemmas ler_defs = fromisoformat_basico_def ler_data_def ler_hora_def ler_fuso_def digito_def
  days_in_month_def is_leap_def replace_Z_def converter_def pedido_em_def pedido_simples_def
  obter_def

lemmas data_defs = toordinal_def ymd2ord_def days_before_year_def days_before_month_def
  days_in_month_def is_leap_def upt_rec

text \<open>
  C5. The key of a weekly bucket is the calendar year of the timestamp (\<^verbatim>\<open>data.year\<close>)
  followed by \<^verbatim>\<open>-S\<close> and the ISO week number, not the ISO year: 2024-12-30 lies in week 1
  of ISO year 2025, and the code puts it in the bucket \<^verbatim>\<open>2024-S1\<close>, together with an order
  of 2024-01-01.
\<close>

theorem C5_semana_ano_civil:
  "fromisoformat_basico ''2024-12-30T12:00:00'' = Some (em 2024 12 30 12)
   \<and> isocalendar (em 2024 12 30 12) = (2025, 1)
   \<and> agrupar_por_periodo fromisoformat_basico [pedido_em ''2024-12-30T12:00:00'' 10] ''semana''
       = [(''2024-S1'', 10)]
   \<and> agrupar_por_periodo fromisoformat_basico
         [pedido_em ''2024-01-01T09:00:00'' 5, pedido_em ''2024-12-30T12:00:00'' 10] ''semana''
       = [(''2024-S1'', 15)]"
  by (simp add: agrupar_por_periodo_def sorted_items_def chave_periodo_def ler_defs
      isocalendar_def isoweek1monday_def data_defs str_nat.simps digit_char_def em_def)

section \<open>Growth\<close>

lemma separar_laco_janelas:
  "separar_laco ler pa pant (va, vp) ps
     = (va @ janela_atual ler pa ps, vp @ janela_anterior ler pa pant ps)"
proof (induction ps arbitrary: va vp)
  case Nil
  show ?case by (simp add: janela_atual_def janela_anterior_def)
next
  case (Cons p ps)
  show ?case
  proof (cases "converter ler (data_pedido p)")
    case None
    then show ?thesis
      by (simp add: Cons.IH janela_atual_def janela_anterior_def instante_ingenuo_def)
  next
    case (Some d)
    show ?thesis
    proof (cases "tzinfo d")
      case (Some fuso)
      then show ?thesis
        using \<open>converter ler (data_pedido p) = Some d\<close>
        by (simp add: Cons.IH janela_atual_def janela_anterior_def instante_ingenuo_def)
    next
      case None
      then show ?thesis
        using \<open>converter ler (data_pedido p) = Some d\<close>
        by (cases "pa \<le> instante_us d")
           (simp_all add: Cons.IH janela_atual_def janela_anterior_def instante_ingenuo_def)
    qed
  qed
qed

text \<open>
  What \<open>calcular_crescimento_vendas\<close> computes when both window bounds exist: the three
  cases of \<open>crescimento\<close> on the totals of the two windows.
\<close>

lemma crescimento_janelas:
  assumes "menos_dias (instante_us agora) dias = Inr pa" and "menos_dias pa dias = Inr pant"
  shows "calcular_crescimento_vendas ler agora ps dias
           = Inr (crescimento (calcular_vendas_totais (janela_atual ler pa ps))
                    (calcular_vendas_totais (janela_anterior ler pa pant ps)))"
  by (simp add: calcular_crescimento_vendas_def assms separar_laco_janelas)

text \<open>
  C3. An order of five days ago whose timestamp ends in \<^verbatim>\<open>Z\<close> is read as a datetime with a
  UTC offset; its comparison with the naive window bound raises \<^verbatim>\<open>TypeError\<close>, the loop
  skips it, and the growth of the batch is 0 where the same order without the \<^verbatim>\<open>Z\<close> gives
  100.
\<close>

theorem C3_fuso_descartado:
  "calcular_crescimento_vendas fromisoformat_basico (em 2026 11 4 12)
     [pedido_em ''2026-10-30T10:00:00Z'' 100] 30 = Inr 0
   \<and> calcular_crescimento_vendas fromisoformat_basico (em 2026 11 4 12)
     [pedido_em ''2026-10-30T10:00:00'' 100] 30 = Inr 100"
  by (simp add: calcular_crescimento_vendas_def menos_dias_def instante_us_def us_min_def
      us_max_def us_por_dia_def em_def data_defs ler_defs crescimento_def
      calcular_vendas_totais_def)

section \<open>The full report and the clock\<close>

lemma trans_sym: "a = c \<Longrightarrow> b = c \<Longrightarrow> a = b"
  by simp

lemma tendencia_retorna:
  assumes "relogio_valido agora"
  shows "\<exists>t. analise_tendencia_vendas ler agora ps 30 = Inr t"
proof -
  let ?t = "instante_us agora"
  have r: "us_min + 60 * us_por_dia \<le> ?t" "?t \<le> us_max"
    using assms by (simp_all add: relogio_valido_def)
  have p: "0 < us_por_dia" by (simp add: us_por_dia_def)
  have a: "menos_dias ?t 30 = Inr (?t - 30 * us_por_dia)"
    using r p by (intro menos_dias_Inr) simp_all
  show ?thesis
    by (simp add: analise_tendencia_vendas_def a Let_def)
qed

lemma metricas_retorna:
  assumes "relogio_valido agora"
  shows "\<exists>m. calcular_metricas_principais ler agora ps = Inr m
           \<and> vendas_totais m = calcular_vendas_totais ps
           \<and> total_pedidos m = length ps
           \<and> ticket_medio m = (if ps = [] then 0 else calcular_vendas_totais ps / real (length ps))"
proof (cases "ps = []")
  case True
  then show ?thesis
    by (simp add: calcular_metricas_principais_def calcular_vendas_totais_def)
next
  case False
  obtain c where c: "calcular_crescimento_vendas ler agora ps 30 = Inr c"
    using crescimento_retorna [OF assms] by blast
  show ?thesis
    using False by (simp add: calcular_metricas_principais_def c Let_def)
qed

lemma relatorio_metricas:
  "gerar_relatorio_completo ler r ps = Inr a
     \<Longrightarrow> calcular_metricas_principais ler (leitura_crescimento r) ps = Inr (metricas_principais a)"
  by (auto simp: gerar_relatorio_completo_def split: sum.splits)

lemma metricas_outubro:
  "calcular_metricas_principais fromisoformat_basico (em 2026 10 15 12) lote_outubro
     = Inr \<lparr>vendas_totais = 100, ticket_medio = 100, total_pedidos = 1,
            crescimento_percentual = 100\<rparr>"
  by (simp add: calcular_metricas_principais_def lote_outubro_def
      calcular_crescimento_vendas_def menos_dias_def instante_us_def us_min_def
      us_max_def us_por_dia_def em_def data_defs ler_defs crescimento_def
      calcular_vendas_totais_def)

lemma metricas_novembro:
  "calcular_metricas_principais fromisoformat_basico (em 2026 11 15 12) lote_outubro
     = Inr \<lparr>vendas_totais = 100, ticket_medio = 100, total_pedidos = 1,
            crescimento_percentual = - 100\<rparr>"
  by (simp add: calcular_metricas_principais_def lote_outubro_def
      calcular_crescimento_vendas_def menos_dias_def instante_us_def us_min_def
      us_max_def us_por_dia_def em_def data_defs ler_defs crescimento_def
      calcular_vendas_totais_def round2_def round_half_even_def)

lemma relogio_outubro: "relogio_ok (relogio_em (em 2026 10 15 12))"
  by (simp add: relogio_ok_def relogio_em_def relogio_valido_def em_def instante_us_def
      data_defs us_min_def us_max_def us_por_dia_def)

lemma relogio_novembro: "relogio_ok (relogio_em (em 2026 11 15 12))"
  by (simp add: relogio_ok_def relogio_em_def relogio_valido_def em_def instante_us_def
      data_defs us_min_def us_max_def us_por_dia_def)

text \<open>
  C9, as stated, fails: the report of one batch depends on the readings of the clock. For
  the batch with one order of 2026-10-01, a call on 2026-10-15 finds the order in the
  current window (growth 100) and a call on 2026-11-15 finds it in the previous window
  (growth -100); the two reports also differ in \<^verbatim>\<open>'data_geracao'\<close>.
\<close>

theorem C9_relogio_counterexample:
  "gerar_relatorio_completo fromisoformat_basico (relogio_em (em 2026 10 15 12)) lote_outubro
     \<noteq> gerar_relatorio_completo fromisoformat_basico (relogio_em (em 2026 11 15 12)) lote_outubro"
proof
  let ?ra = "relogio_em (em 2026 10 15 12)" and ?rb = "relogio_em (em 2026 11 15 12)"
  assume eq: "gerar_relatorio_completo fromisoformat_basico ?ra lote_outubro
                = gerar_relatorio_completo fromisoformat_basico ?rb lote_outubro"
  have v: "relogio_valido (em 2026 10 15 12)"
    using relogio_outubro by (simp add: relogio_ok_def relogio_em_def)
  obtain t where t: "analise_tendencia_vendas fromisoformat_basico (em 2026 10 15 12) lote_outubro 30
                       = Inr t"
    using tendencia_retorna [OF v] by blast
  then obtain a where a: "gerar_relatorio_completo fromisoformat_basico ?ra lote_outubro = Inr a"
    by (simp add: gerar_relatorio_completo_def relogio_em_def metricas_outubro)
  have "calcular_metricas_principais fromisoformat_basico (leitura_crescimento ?ra) lote_outubro
          = Inr (metricas_principais a)"
    by (rule relatorio_metricas [OF a])
  moreover have "calcular_metricas_principais fromisoformat_basico (leitura_crescimento ?rb)
                   lote_outubro = Inr (metricas_principais a)"
    by (rule relatorio_metricas) (simp add: eq [symmetric] a)
  ultimately have "calcular_metricas_principais fromisoformat_basico (leitura_crescimento ?ra)
                     lote_outubro
                   = calcular_metricas_principais fromisoformat_basico (leitura_crescimento ?rb)
                       lote_outubro"
    by (rule trans_sym)
  then show False
    by (simp add: relogio_em_def metricas_outubro metricas_novembro)
qed

text \<open>
  C9, amended. For every batch and any two clocks whose readings are valid, both calls of
  \<open>gerar_relatorio_completo\<close> return a report, and the two reports agree on total sales,
  average ticket, order count, advanced statistics, forecast, peak hours, weekday
  performance, top items and the three period breakdowns. The generation timestamp of
  each report is the reading of its clock; growth and trend are computed from the batch
  and the readings.
\<close>

theorem C9_relatorio_e_relogio:
  assumes "relogio_ok r" and "relogio_ok r'"
  shows "\<exists>a b. gerar_relatorio_completo ler r ps = Inr a
           \<and> gerar_relatorio_completo ler r' ps = Inr b
           \<and> vendas_totais (metricas_principais a) = vendas_totais (metricas_principais b)
           \<and> ticket_medio (metricas_principais a) = ticket_medio (metricas_principais b)
           \<and> total_pedidos (metricas_principais a) = total_pedidos (metricas_principais b)
           \<and> estatisticas_avancadas a = estatisticas_avancadas b
           \<and> previsao_vendas a = previsao_vendas b
           \<and> rel_horarios_pico a = rel_horarios_pico b
           \<and> rel_dias_semana_performance a = rel_dias_semana_performance b
           \<and> itens_mais_vendidos a = itens_mais_vendidos b
           \<and> vendas_por_dia a = vendas_por_dia b
           \<and> vendas_por_semana a = vendas_por_semana b
           \<and> vendas_por_mes a = vendas_por_mes b
           \<and> data_geracao a = leitura_geracao r
           \<and> data_geracao b = leitura_geracao r'
           \<and> calcular_metricas_principais ler (leitura_crescimento r) ps
               = Inr (metricas_principais a)
           \<and> analise_tendencia_vendas ler (leitura_tendencia r) ps 30
               = Inr (rel_tendencia_vendas a)"
proof -
  obtain m where m: "calcular_metricas_principais ler (leitura_crescimento r) ps = Inr m"
    "vendas_totais m = calcular_vendas_totais ps" "total_pedidos m = length ps"
    "ticket_medio m = (if ps = [] then 0 else calcular_vendas_totais ps / real (length ps))"
    using metricas_retorna [of "leitura_crescimento r" ler ps] assms(1)
    by (auto simp: relogio_ok_def)
  obtain m' where m': "calcular_metricas_principais ler (leitura_crescimento r') ps = Inr m'"
    "vendas_totais m' = calcular_vendas_totais ps" "total_pedidos m' = length ps"
    "ticket_medio m' = (if ps = [] then 0 else calcular_vendas_totais ps / real (length ps))"
    using metricas_retorna [of "leitura_crescimento r'" ler ps] assms(2)
    by (auto simp: relogio_ok_def)
  obtain t where t: "analise_tendencia_vendas ler (leitura_tendencia r) ps 30 = Inr t"
    using tendencia_retorna [of "leitura_tendencia r" ler ps] assms(1)
    by (auto simp: relogio_ok_def)
  obtain t' where t': "analise_tendencia_vendas ler (leitura_tendencia r') ps 30 = Inr t'"
    using tendencia_retorna [of "leitura_tendencia r'" ler ps] assms(2)
    by (auto simp: relogio_ok_def)
  show ?thesis
    by (simp add: gerar_relatorio_completo_def m m' t t')
qed

theorem C9_relatorio_e_relogio_witness:
  "relogio_ok (relogio_em (em 2026 10 15 12)) \<and> relogio_ok (relogio_em (em 2026 11 15 12))
   \<and> (\<exists>a b. gerar_relatorio_completo fromisoformat_basico (relogio_em (em 2026 10 15 12))
               lote_outubro = Inr a
           \<and> gerar_relatorio_completo fromisoformat_basico (relogio_em (em 2026 11 15 12))
               lote_outubro = Inr b
           \<and> vendas_totais (metricas_principais a) = vendas_totais (metricas_principais b)
           \<and> previsao_vendas a = previsao_vendas b
           \<and> vendas_por_dia a = vendas_por_dia b
           \<and> data_geracao a = em 2026 10 15 12
           \<and> data_geracao b = em 2026 11 15 12)"
proof -
  have "\<exists>a b. gerar_relatorio_completo fromisoformat_basico (relogio_em (em 2026 10 15 12))
               lote_outubro = Inr a
           \<and> gerar_relatorio_completo fromisoformat_basico (relogio_em (em 2026 11 15 12))
               lote_outubro = Inr b
           \<and> vendas_totais (metricas_principais a) = vendas_totais (metricas_principais b)
           \<and> previsao_vendas a = previsao_vendas b
           \<and> vendas_por_dia a = vendas_por_dia b
           \<and> data_geracao a = leitura_geracao (relogio_em (em 2026 10 15 12))
           \<and> data_geracao b = leitura_geracao (relogio_em (em 2026 11 15 12))"
    using C9_relatorio_e_relogio
      [OF relogio_outubro relogio_novembro, of fromisoformat_basico lote_outubro]
    by blast
  then show ?thesis
    using relogio_outubro relogio_novembro by (simp add: relogio_em_def)
qed

end
